theory Spec2Isabelle
  imports Complex_Main
begin

section \<open>Python and numpy values\<close>

text \<open>
  The registration module is Python over SimpleITK and numpy. Python floats are read as
  real numbers: rounding error, infinities and NaN are outside the model, and every place
  where the source can divide by zero is a branch of its own. Python integers are
  \<^typ>\<open>int\<close>. Exceptions are values of \<open>error\<close>; a function that can raise returns
  \<open>error + 'a\<close> with \<open>Inl\<close> for the exception.
\<close>

datatype error =
    ValueError string
  | ZeroDivisionError
  | IndexError
  | AttributeError
  | NonFinite
  | SitkError

text \<open>
  \<open>NonFinite\<close> is not a Python exception: numpy divides by zero without raising and
  yields \<open>inf\<close> or \<open>nan\<close>, whose conversion to an integer is unspecified. The model
  stops there with this value instead of inventing a number.
\<close>

text \<open>\<^verbatim>\<open>int(x)\<close> on a float, and numpy's \<^verbatim>\<open>.astype(int)\<close>: truncation toward zero.\<close>

definition py_int :: "real \<Rightarrow> int" where
  "py_int x = (if 0 \<le> x then \<lfloor>x\<rfloor> else \<lceil>x\<rceil>)"

text \<open>
  An argument that the source accepts either as one number or as a list of numbers
  (\<^verbatim>\<open>shrink_factor\<close>, \<^verbatim>\<open>grid_spacing\<close>).
\<close>

datatype number_or_list = Number real | NumberList "real list"

text \<open>
  numpy's broadcasting of two one-dimensional arrays: equal lengths pair up, a length-one
  array is stretched, anything else raises \<^verbatim>\<open>ValueError\<close>.
\<close>

definition np_broadcast :: "real list \<Rightarrow> real list \<Rightarrow> error + (real \<times> real) list" where
  "np_broadcast xs ys =
     (if length xs = length ys then Inr (zip xs ys)
      else if length xs = 1 then Inr (map (\<lambda>y. (hd xs, y)) ys)
      else if length ys = 1 then Inr (map (\<lambda>x. (x, hd ys)) xs)
      else Inl (ValueError ''operands could not be broadcast together''))"

definition np_operand :: "real list \<Rightarrow> number_or_list \<Rightarrow> error + (real \<times> real) list" where
  "np_operand xs a =
     (case a of
        Number y \<Rightarrow> Inr (map (\<lambda>x. (x, y)) xs)
      | NumberList ys \<Rightarrow> np_broadcast xs ys)"

definition np_multiply :: "real list \<Rightarrow> real list \<Rightarrow> error + real list" where
  "np_multiply xs ys =
     (case np_broadcast xs ys of
        Inl e \<Rightarrow> Inl e
      | Inr ps \<Rightarrow> Inr (map (\<lambda>(x, y). x * y) ps))"

definition np_true_divide :: "real list \<Rightarrow> number_or_list \<Rightarrow> error + real list" where
  "np_true_divide xs a =
     (case np_operand xs a of
        Inl e \<Rightarrow> Inl e
      | Inr ps \<Rightarrow>
          if list_ex (\<lambda>(x, y). y = 0) ps then Inl NonFinite
          else Inr (map (\<lambda>(x, y). x / y) ps))"

text \<open>Python list access that raises \<^verbatim>\<open>IndexError\<close>: \<^verbatim>\<open>xs[-1]\<close> and \<^verbatim>\<open>xs[i]\<close> for \<open>i \<ge> 0\<close>.\<close>

definition py_last :: "'a list \<Rightarrow> error + 'a" where
  "py_last xs = (if xs = [] then Inl IndexError else Inr (last xs))"

definition py_nth :: "'a list \<Rightarrow> nat \<Rightarrow> error + 'a" where
  "py_nth xs i = (if i < length xs then Inr (xs ! i) else Inl IndexError)"

text \<open>Python's \<^verbatim>\<open>x / y\<close> on floats, and a list comprehension whose body can raise.\<close>

definition py_true_divide :: "real \<Rightarrow> real \<Rightarrow> error + real" where
  "py_true_divide x y = (if y = 0 then Inl ZeroDivisionError else Inr (x / y))"

fun comprehension :: "('a \<Rightarrow> error + 'b) \<Rightarrow> 'a list \<Rightarrow> error + 'b list" where
  "comprehension f [] = Inr []"
| "comprehension f (x # xs) =
     (case f x of
        Inl e \<Rightarrow> Inl e
      | Inr y \<Rightarrow> (case comprehension f xs of Inl e \<Rightarrow> Inl e | Inr ys \<Rightarrow> Inr (y # ys)))"

text \<open>
  \<^verbatim>\<open>str.lower()\<close> on the ASCII letters; the option names the module compares with are
  ASCII.
\<close>

definition lower_char :: "char \<Rightarrow> char" where
  "lower_char c =
     (let n = (of_char c :: nat) in if 65 \<le> n \<and> n \<le> 90 then char_of (n + 32) else c)"

definition lower :: "string \<Rightarrow> string" where
  "lower s = map lower_char s"


section \<open>Images\<close>

text \<open>
  A SimpleITK image as the module reads it: the grid (size, spacing, origin, direction),
  the pixel type and the samples. The fields carry the names of the accessors the source
  calls.
\<close>

record image =
  GetSize :: "int list"
  GetSpacing :: "real list"
  GetOrigin :: "real list"
  GetDirection :: "real list"
  GetPixelID :: int
  GetArrayFromImage :: "real list"

section \<open>The SimpleITK objects the module configures\<close>

text \<open>
  Transforms are the constructors the source calls. A freshly constructed transform of a
  family carries no parameters; \<open>Fitted\<close> is a transform of a family with the
  parameters the library computed for it.
\<close>

datatype transform =
    Transform
  | TranslationTransform nat
  | Euler3DTransform
  | VersorRigid3DTransform
  | Similarity3DTransform
  | AffineTransform nat
  | ScaleVersor3DTransform
  | ScaleSkewVersor3DTransform
  | Fitted transform "real list"
  | CompositeTransform "transform list"
  | DisplacementFieldTransform image

text \<open>
  \<^verbatim>\<open>sitk.ResampleImageFilter()\<close>: a field is \<open>None\<close> until its setter has been called
  (the library's default then applies).
\<close>

record resampler =
  ReferenceImage :: "image option"
  ResampleTransform :: "transform option"
  DefaultPixelValue :: "real option"
  Interpolator :: "int option"

definition ResampleImageFilter :: resampler where
  "ResampleImageFilter =
     \<lparr>ReferenceImage = None, ResampleTransform = None, DefaultPixelValue = None,
      Interpolator = None\<rparr>"

datatype metric =
    Correlation
  | MeanSquares
  | MattesMutualInformation
  | JointHistogramMutualInformation
  | ANTSNeighborhoodCorrelation int

text \<open>
  The optimisers with the arguments the source passes: for \<open>LBFGSB\<close> the gradient
  convergence tolerance, the number of iterations, the maximum numbers of corrections and
  of function evaluations, the cost function convergence factor and the trace flag; for
  the gradient descents the learning rate and the number of iterations.
\<close>

datatype optimizer =
    LBFGSB real int int int real bool
  | Exhaustive "int list"
  | GradientDescentLineSearch real int
  | GradientDescent real int

datatype sampling_strategy = REGULAR

text \<open>\<^verbatim>\<open>sitk.ImageRegistrationMethod()\<close>, each field \<open>None\<close> or \<open>False\<close> until set.\<close>

record registration_method =
  ShrinkFactorsPerLevel :: "real list option"
  SmoothingSigmasPerLevel :: "real list option"
  SmoothingSigmasAreSpecifiedInPhysicalUnits :: bool
  MovingInitialTransform :: "transform option"
  Metric :: "metric option"
  RegistrationInterpolator :: "int option"
  MetricSamplingPercentage :: "real option"
  MetricSamplingStrategy :: "sampling_strategy option"
  OptimizerScalesFromPhysicalShift :: bool
  MetricMovingMask :: "image option"
  MetricFixedMask :: "image option"
  InitialTransform :: "transform option"
  Optimizer :: "optimizer option"
  IterationCommand :: bool

definition ImageRegistrationMethod :: registration_method where
  "ImageRegistrationMethod =
     \<lparr>ShrinkFactorsPerLevel = None, SmoothingSigmasPerLevel = None,
      SmoothingSigmasAreSpecifiedInPhysicalUnits = False, MovingInitialTransform = None,
      Metric = None, RegistrationInterpolator = None, MetricSamplingPercentage = None,
      MetricSamplingStrategy = None, OptimizerScalesFromPhysicalShift = False,
      MetricMovingMask = None, MetricFixedMask = None, InitialTransform = None,
      Optimizer = None, IterationCommand = False\<rparr>"

text \<open>\<^verbatim>\<open>sitk.FastSymmetricForcesDemonsRegistrationFilter()\<close>.\<close>

record demons_filter =
  NumberOfThreads :: "int option"
  SmoothUpdateField :: "bool option"
  SmoothDisplacementField :: "bool option"
  StandardDeviations :: "real option"
  NumberOfIterations :: "int option"
  DemonsIterationCommand :: bool

definition FastSymmetricForcesDemonsRegistrationFilter :: demons_filter where
  "FastSymmetricForcesDemonsRegistrationFilter =
     \<lparr>NumberOfThreads = None, SmoothUpdateField = None, SmoothDisplacementField = None,
      StandardDeviations = None, NumberOfIterations = None, DemonsIterationCommand = False\<rparr>"

section \<open>Library calls\<close>

text \<open>
  The image processing itself is SimpleITK's. Every call into it that produces an image
  or a transform is a value of \<open>call\<close>, with the arguments in the order the source
  passes them:
  \<^item> \<open>Cast image pixel_id\<close>;
  \<^item> \<open>SignedMaurerDistanceMap mask insideIsPositive squaredDistance useImageSpacing\<close>;
  \<^item> \<open>CenteredTransformInitializer fixed moving transform operationMode\<close>;
  \<^item> \<open>RegistrationExecute method fixed moving\<close>, \<open>ResampleExecute filter image\<close> and
    \<open>DemonsExecute filter fixed moving field\<close> for the \<^verbatim>\<open>Execute\<close> methods;
  \<^item> \<open>DiscreteGaussian image variance maximumKernelWidth\<close>;
  \<^item> \<open>Resample image size transform interpolator origin spacing direction default
    pixel_id\<close>, \<open>ResampleTo image reference\<close> and
    \<open>ResampleUnder image reference transform\<close> for the three forms of
    \<^verbatim>\<open>sitk.Resample\<close>;
  \<^item> \<open>TransformToDisplacementField transform pixel_id size origin spacing direction\<close>;
  \<^item> \<open>NewImage size pixel_id\<close> for \<^verbatim>\<open>sitk.Image(width, height[, depth], pixel_id)\<close>;
  \<^item> \<open>CopyInformation image source\<close> for \<^verbatim>\<open>image.CopyInformation(source)\<close>;
  \<^item> \<open>BinaryThreshold image lowerThreshold upperThreshold\<close>.
\<close>

datatype call =
    Cast image int
  | SignedMaurerDistanceMap image bool bool bool
  | CenteredTransformInitializer image image transform bool
  | RegistrationExecute registration_method image image
  | ResampleExecute resampler image
  | DemonsExecute demons_filter image image image
  | DiscreteGaussian image real int
  | Resample image "int list" transform int "real list" "real list" "real list" real int
  | ResampleTo image image
  | ResampleUnder image image transform
  | TransformToDisplacementField transform int "int list" "real list" "real list" "real list"
  | NewImage "int list" int
  | CopyInformation image image
  | BinaryThreshold image real real

datatype answer = AnImage image | ATransform transform

text \<open>
  The library is a parameter of the model: its enumeration constants and, for each call,
  what it answers (\<open>None\<close> when the library raises). Nothing is assumed about the
  answers, so a statement proved for every \<open>sitk\<close> holds whatever the library computes.
\<close>

record sitk =
  sitkNearestNeighbor :: int
  sitkLinear :: int
  sitkFloat32 :: int
  sitkVectorFloat64 :: int
  answers :: "call \<Rightarrow> answer option"

section \<open>Runs\<close>

text \<open>
  A run of a function of the module: the library calls it made, in order, and either the
  exception that ended it or its result. \<open>SitkError\<close> is the library's own exception,
  passed on unchanged; the other errors are raised by the module's own code.
\<close>

type_synonym 'a run = "call list \<times> (error + 'a)"

definition returns :: "'a \<Rightarrow> 'a run" where
  "returns x = ([], Inr x)"

definition raises :: "error \<Rightarrow> 'a run" where
  "raises e = ([], Inl e)"

definition python :: "error + 'a \<Rightarrow> 'a run" where
  "python r = ([], r)"

definition and_then :: "'a run \<Rightarrow> ('a \<Rightarrow> 'b run) \<Rightarrow> 'b run" where
  "and_then m f =
     (case m of
        (t, Inl e) \<Rightarrow> (t, Inl e)
      | (t, Inr x) \<Rightarrow> (case f x of (t', r) \<Rightarrow> (t @ t', r)))"

definition sitk_image :: "sitk \<Rightarrow> call \<Rightarrow> image run" where
  "sitk_image lib c =
     ([c], case answers lib c of Some (AnImage i) \<Rightarrow> Inr i | _ \<Rightarrow> Inl SitkError)"

definition sitk_transform :: "sitk \<Rightarrow> call \<Rightarrow> transform run" where
  "sitk_transform lib c =
     ([c], case answers lib c of Some (ATransform t) \<Rightarrow> Inr t | _ \<Rightarrow> Inl SitkError)"

definition calls :: "'a run \<Rightarrow> call list" where
  "calls r = fst r"

definition outcome :: "'a run \<Rightarrow> error + 'a" where
  "outcome r = snd r"

section \<open>Distance maps\<close>

text \<open>
  Python's \<^verbatim>\<open>max\<close> of a list and numpy's \<^verbatim>\<open>.max()\<close> of an array: both raise
  \<^verbatim>\<open>ValueError\<close> on an empty argument.
\<close>

definition py_max :: "real list \<Rightarrow> error + real" where
  "py_max xs =
     (if xs = [] then Inl (ValueError ''max() arg is an empty sequence'')
      else Inr (Max (set xs)))"



section \<open>Applying a transform\<close>

definition transform_propagation ::
  "sitk \<Rightarrow> image \<Rightarrow> image \<Rightarrow> transform \<Rightarrow> bool \<Rightarrow> real \<Rightarrow> int \<Rightarrow> image run" where
  "transform_propagation lib fixed_image moving_image transform structure default_value interp =
     (let resampler = ResampleImageFilter;
          resampler = resampler\<lparr>ReferenceImage := Some fixed_image\<rparr>;
          resampler = resampler\<lparr>ResampleTransform := Some transform\<rparr>
      in and_then
           (if structure then
              if interp \<noteq> sitkNearestNeighbor lib then
                raises (ValueError ''Structure interpolation should be nearest neighbour.'')
              else returns ()
            else returns ())
           (\<lambda>_. let resampler = resampler\<lparr>DefaultPixelValue := Some default_value\<rparr>;
                    resampler = resampler\<lparr>Interpolator := Some interp\<rparr>
                in and_then (sitk_image lib (ResampleExecute resampler moving_image))
                     (\<lambda>output_image.
                        and_then (sitk_image lib (Cast output_image (GetPixelID moving_image)))
                          (\<lambda>output_image. returns output_image))))"

definition apply_field ::
  "sitk \<Rightarrow> image \<Rightarrow> transform \<Rightarrow> bool \<Rightarrow> real \<Rightarrow> int \<Rightarrow> image run" where
  "apply_field lib input_image transform structure default_value interp =
     (let input_image_type = GetPixelID input_image;
          resampler = ResampleImageFilter;
          resampler = resampler\<lparr>ReferenceImage := Some input_image\<rparr>
      in and_then
           (if structure then
              if interp \<noteq> sitkNearestNeighbor lib then
                raises (ValueError ''Structure interpolation should be nearest neighbour.'')
              else returns ()
            else returns ())
           (\<lambda>_. let resampler = resampler\<lparr>Interpolator := Some interp\<rparr>;
                    resampler = resampler\<lparr>DefaultPixelValue := Some default_value\<rparr>;
                    resampler = resampler\<lparr>ResampleTransform := Some transform\<rparr>
                in and_then (sitk_image lib (Cast input_image (sitkFloat32 lib)))
                     (\<lambda>float_image.
                        and_then (sitk_image lib (ResampleExecute resampler float_image))
                          (\<lambda>resampled_image.
                             sitk_image lib (Cast resampled_image input_image_type)))))"

section \<open>Pyramid levels\<close>

text \<open>
  The three list comprehensions of \<^verbatim>\<open>smooth_and_resample\<close> for the new size, and the
  one for the new spacing. \<^verbatim>\<open>zip\<close> stops at the shortest list, as Python's does.
\<close>

definition rounded_quotient :: "int \<Rightarrow> real \<Rightarrow> error + int" where
  "rounded_quotient sz sf =
     (case py_true_divide (real_of_int sz) sf of
        Inl e \<Rightarrow> Inl e
      | Inr q \<Rightarrow> Inr (py_int (q + 0.5)))"

definition new_size_of :: "image \<Rightarrow> number_or_list \<Rightarrow> bool \<Rightarrow> error + int list" where
  "new_size_of img shrink_factor isotropic_resample =
     (let original_size = GetSize img
      in if isotropic_resample then
           (case (case shrink_factor of
                    Number f \<Rightarrow> Inr (map (\<lambda>one. f * one) (map (\<lambda>_. 1) (GetSize img)))
                  | NumberList fs \<Rightarrow> np_multiply fs (map (\<lambda>_. 1) (GetSize img))) of
              Inl e \<Rightarrow> Inl e
            | Inr scaled \<Rightarrow>
                (case np_true_divide scaled (NumberList (GetSpacing img)) of
                   Inl e \<Rightarrow> Inl e
                 | Inr scale_factor \<Rightarrow>
                     comprehension (\<lambda>(sz, sf). rounded_quotient sz sf)
                       (zip original_size scale_factor)))
         else
           (case shrink_factor of
              NumberList sfs \<Rightarrow>
                comprehension (\<lambda>(sz, sf). rounded_quotient sz sf) (zip original_size sfs)
            | Number sf \<Rightarrow> comprehension (\<lambda>sz. rounded_quotient sz sf) original_size))"

definition new_spacing_of :: "int list \<Rightarrow> real list \<Rightarrow> int list \<Rightarrow> error + real list" where
  "new_spacing_of original_size original_spacing new_size =
     comprehension
       (\<lambda>(original_sz, original_spc, new_sz).
          py_true_divide (real_of_int (original_sz - 1) * original_spc) (real_of_int (new_sz - 1)))
       (zip original_size (zip original_spacing new_size))"

definition smooth_and_resample ::
  "sitk \<Rightarrow> image \<Rightarrow> number_or_list \<Rightarrow> real \<Rightarrow> bool \<Rightarrow> int \<Rightarrow> image run" where
  "smooth_and_resample lib img shrink_factor smoothing_sigma isotropic_resample resampler =
     and_then
       (if smoothing_sigma > 0 then
          and_then (python (py_max (map (\<lambda>i. 8 * smoothing_sigma * i) (GetSpacing img))))
            (\<lambda>widest.
               let maximum_kernel_width = py_int widest
               in sitk_image lib (DiscreteGaussian img (smoothing_sigma ^ 2) maximum_kernel_width))
        else returns img)
       (\<lambda>smoothed_image.
          let original_spacing = GetSpacing img;
              original_size = GetSize img
          in and_then (python (new_size_of img shrink_factor isotropic_resample))
               (\<lambda>new_size.
                  and_then (python (new_spacing_of original_size original_spacing new_size))
                    (\<lambda>new_spacing.
                       sitk_image lib
                         (Resample smoothed_image new_size Transform resampler (GetOrigin img)
                            new_spacing (GetDirection img) 0 (GetPixelID img)))))"

section \<open>Multi-resolution demons\<close>

text \<open>
  \<^verbatim>\<open>GetWidth\<close>, \<^verbatim>\<open>GetHeight\<close> and \<^verbatim>\<open>GetDepth\<close> read the first three sizes; an axis
  the image does not have reads as 0.
\<close>

definition GetWidth :: "image \<Rightarrow> int" where
  "GetWidth img = (case GetSize img of w # _ \<Rightarrow> w | _ \<Rightarrow> 0)"

definition GetHeight :: "image \<Rightarrow> int" where
  "GetHeight img = (case GetSize img of _ # h # _ \<Rightarrow> h | _ \<Rightarrow> 0)"

definition GetDepth :: "image \<Rightarrow> int" where
  "GetDepth img = (case GetSize img of _ # _ # d # _ \<Rightarrow> d | _ \<Rightarrow> 0)"

text \<open>
  The loop that fills \<^verbatim>\<open>fixed_images\<close> and \<^verbatim>\<open>moving_images\<close>; its argument is the
  reversed list of (shrink factor, smoothing sigma) pairs, so the first pair of the
  schedule gives the last image of each list.
\<close>

fun image_pyramid ::
  "sitk \<Rightarrow> image \<Rightarrow> image \<Rightarrow> bool \<Rightarrow> (number_or_list \<times> real) list
     \<Rightarrow> (image list \<times> image list) run" where
  "image_pyramid lib fixed_image moving_image isotropic_resample [] = returns ([], [])"
| "image_pyramid lib fixed_image moving_image isotropic_resample
     ((shrink_factor, smoothing_sigma) # levels) =
     and_then
       (smooth_and_resample lib fixed_image shrink_factor smoothing_sigma isotropic_resample
          (sitkLinear lib))
       (\<lambda>fixed_level.
          and_then
            (smooth_and_resample lib moving_image shrink_factor smoothing_sigma
               isotropic_resample (sitkLinear lib))
            (\<lambda>moving_level.
               and_then
                 (image_pyramid lib fixed_image moving_image isotropic_resample levels)
                 (\<lambda>(fixed_images, moving_images).
                    returns (fixed_level # fixed_images, moving_level # moving_images))))"

text \<open>
  ``Create initial displacement field at lowest resolution.'' An argument the caller did
  not supply (\<^verbatim>\<open>None\<close>) is \<open>None\<close>; a supplied image or transform is taken to be
  truthy. With neither supplied and a moving image that is neither 2-D nor 3-D the
  variable is still \<^verbatim>\<open>None\<close> when \<^verbatim>\<open>CopyInformation\<close> is called on it.
\<close>

definition initial_field_at_lowest_resolution ::
  "sitk \<Rightarrow> image \<Rightarrow> image list \<Rightarrow> transform option \<Rightarrow> image option \<Rightarrow> image run" where
  "initial_field_at_lowest_resolution lib moving_image fixed_images initial_transform
     initial_displacement_field =
     (case initial_displacement_field of
        None \<Rightarrow>
          (case initial_transform of
             Some t \<Rightarrow>
               and_then (python (py_last fixed_images))
                 (\<lambda>lowest.
                    sitk_image lib
                      (TransformToDisplacementField t (sitkVectorFloat64 lib) (GetSize lowest)
                         (GetOrigin lowest) (GetSpacing lowest) (GetDirection lowest)))
           | None \<Rightarrow>
               and_then
                 (if length (GetSize moving_image) = 2 then
                    and_then (python (py_last fixed_images))
                      (\<lambda>lowest.
                         and_then
                           (sitk_image lib
                              (NewImage [GetWidth lowest, GetHeight lowest]
                                 (sitkVectorFloat64 lib)))
                           (\<lambda>field. returns (Some field)))
                  else if length (GetSize moving_image) = 3 then
                    and_then (python (py_last fixed_images))
                      (\<lambda>lowest.
                         and_then
                           (sitk_image lib
                              (NewImage [GetWidth lowest, GetHeight lowest, GetDepth lowest]
                                 (sitkVectorFloat64 lib)))
                           (\<lambda>field. returns (Some field)))
                  else returns None)
                 (\<lambda>created.
                    case created of
                      None \<Rightarrow> raises AttributeError
                    | Some field \<Rightarrow>
                        and_then (python (py_last fixed_images))
                          (\<lambda>lowest. sitk_image lib (CopyInformation field lowest))))
      | Some field \<Rightarrow>
          and_then (python (py_last fixed_images))
            (\<lambda>lowest. sitk_image lib (ResampleTo field lowest)))"

text \<open>
  The loop over the remaining levels; \<open>i\<close> is the index \<^verbatim>\<open>enumerate\<close> gives. The
  filter is passed along because \<^verbatim>\<open>SetNumberOfIterations\<close> changes it.
\<close>

fun remaining_levels ::
  "sitk \<Rightarrow> demons_filter \<Rightarrow> int list \<Rightarrow> nat \<Rightarrow> (image \<times> image) list \<Rightarrow> image
     \<Rightarrow> image run" where
  "remaining_levels lib registration_algorithm iteration_staging i [] field = returns field"
| "remaining_levels lib registration_algorithm iteration_staging i ((f_image, m_image) # levels)
     field =
     and_then (sitk_image lib (ResampleTo field f_image))
       (\<lambda>field.
          and_then (python (py_nth iteration_staging (i + 1)))
            (\<lambda>iters.
               let registration_algorithm =
                     registration_algorithm\<lparr>NumberOfIterations := Some iters\<rparr>
               in and_then (sitk_image lib (DemonsExecute registration_algorithm f_image m_image field))
                    (\<lambda>field.
                       remaining_levels lib registration_algorithm iteration_staging (i + 1)
                         levels field)))"

definition multiscale_demons ::
  "sitk \<Rightarrow> demons_filter \<Rightarrow> image \<Rightarrow> image \<Rightarrow> transform option \<Rightarrow> image option
     \<Rightarrow> number_or_list list \<Rightarrow> real list \<Rightarrow> int list \<Rightarrow> bool \<Rightarrow> (transform \<times> image) run" where
  "multiscale_demons lib registration_algorithm fixed_image moving_image initial_transform
     initial_displacement_field shrink_factors smoothing_sigmas iteration_staging
     isotropic_resample =
     and_then
       (image_pyramid lib fixed_image moving_image isotropic_resample
          (rev (zip shrink_factors smoothing_sigmas)))
       (\<lambda>(fixed_images, moving_images).
          and_then
            (initial_field_at_lowest_resolution lib moving_image fixed_images initial_transform
               initial_displacement_field)
            (\<lambda>field.
               and_then (python (py_nth iteration_staging 0))
                 (\<lambda>iters.
                    let registration_algorithm =
                          registration_algorithm\<lparr>NumberOfIterations := Some iters\<rparr>
                    in and_then (python (py_last fixed_images))
                         (\<lambda>fixed_lowest.
                            and_then (python (py_last moving_images))
                              (\<lambda>moving_lowest.
                                 and_then
                                   (sitk_image lib
                                      (DemonsExecute registration_algorithm fixed_lowest
                                         moving_lowest field))
                                   (\<lambda>field.
                                      and_then
                                        (remaining_levels lib registration_algorithm
                                           iteration_staging 0
                                           (rev (zip (butlast fixed_images)
                                                   (butlast moving_images)))
                                           field)
                                        (\<lambda>field.
                                           and_then (sitk_image lib (ResampleTo field field))
                                             (\<lambda>output_displacement_field.
                                                returns
                                                  (DisplacementFieldTransform field,
                                                   output_displacement_field)))))))))"

text \<open>
  \<^verbatim>\<open>fast_symmetric_forces_demons_registration\<close>. \<^verbatim>\<open>smoothing_sigmas\<close> is \<open>None\<close> for
  the default \<^verbatim>\<open>False\<close>; an empty list is falsy as well.
\<close>

definition fast_symmetric_forces_demons_registration ::
  "sitk \<Rightarrow> image \<Rightarrow> image \<Rightarrow> real list \<Rightarrow> int list \<Rightarrow> bool \<Rightarrow> image option \<Rightarrow> real
     \<Rightarrow> real list option \<Rightarrow> real \<Rightarrow> int \<Rightarrow> bool \<Rightarrow> int \<Rightarrow> bool
     \<Rightarrow> (image \<times> transform \<times> image) run" where
  "fast_symmetric_forces_demons_registration lib fixed_image moving_image resolution_staging
     iteration_staging isotropic_resample initial_displacement_field smoothing_sigma_factor
     smoothing_sigmas default_value ncores structure interp_order verbose =
     (let moving_image_type = GetPixelID moving_image
      in and_then
           (if GetPixelID fixed_image \<noteq> 6 then sitk_image lib (Cast fixed_image (sitkFloat32 lib))
            else returns fixed_image)
           (\<lambda>fixed_image.
              and_then
                (if GetPixelID moving_image \<noteq> 6 then
                   sitk_image lib (Cast moving_image (sitkFloat32 lib))
                 else returns moving_image)
                (\<lambda>moving_image.
                   let registration_method = FastSymmetricForcesDemonsRegistrationFilter;
                       registration_method = registration_method\<lparr>NumberOfThreads := Some ncores\<rparr>;
                       registration_method = registration_method\<lparr>SmoothUpdateField := Some True\<rparr>;
                       registration_method =
                         registration_method\<lparr>SmoothDisplacementField := Some True\<rparr>;
                       registration_method =
                         registration_method\<lparr>StandardDeviations := Some 1.5\<rparr>;
                       registration_method =
                         (if verbose then registration_method\<lparr>DemonsIterationCommand := True\<rparr>
                          else registration_method);
                       smoothing_sigmas =
                         (case smoothing_sigmas of
                            None \<Rightarrow> map (\<lambda>i. i * smoothing_sigma_factor) resolution_staging
                          | Some [] \<Rightarrow> map (\<lambda>i. i * smoothing_sigma_factor) resolution_staging
                          | Some sigmas \<Rightarrow> sigmas)
                   in and_then
                        (multiscale_demons lib registration_method fixed_image moving_image None
                           initial_displacement_field (map Number resolution_staging)
                           smoothing_sigmas iteration_staging isotropic_resample)
                        (\<lambda>(output_transform, deformation_field).
                           let resampler = ResampleImageFilter;
                               resampler = resampler\<lparr>ReferenceImage := Some fixed_image\<rparr>;
                               resampler = resampler\<lparr>Interpolator := Some interp_order\<rparr>;
                               resampler =
                                 (if structure then resampler\<lparr>DefaultPixelValue := Some 0\<rparr>
                                  else resampler\<lparr>DefaultPixelValue := Some default_value\<rparr>);
                               resampler = resampler\<lparr>ResampleTransform := Some output_transform\<rparr>
                           in and_then (sitk_image lib (ResampleExecute resampler moving_image))
                                (\<lambda>registered_image.
                                   and_then
                                     (if structure then
                                        and_then
                                          (sitk_image lib
                                             (Cast registered_image (sitkFloat32 lib)))
                                          (\<lambda>registered_image.
                                             sitk_image lib
                                               (BinaryThreshold registered_image (1 / 100000) 100))
                                      else returns registered_image)
                                     (\<lambda>registered_image.
                                        and_then
                                          (sitk_image lib
                                             (CopyInformation registered_image fixed_image))
                                          (\<lambda>registered_image.
                                             and_then
                                               (sitk_image lib
                                                  (Cast registered_image moving_image_type))
                                               (\<lambda>registered_image.
                                                  and_then
                                                    (sitk_image lib
                                                       (ResampleTo deformation_field fixed_image))
                                                    (\<lambda>resampled_field.
                                                       returns
                                                         (registered_image, output_transform,
                                                          resampled_field))))))))))"

section \<open>Linear registration\<close>

definition alignment_registration ::
  "sitk \<Rightarrow> image \<Rightarrow> image \<Rightarrow> bool \<Rightarrow> (image \<times> transform) run" where
  "alignment_registration lib fixed_image moving_image moments =
     (let moving_image_type = GetPixelID moving_image
      in and_then (sitk_image lib (Cast fixed_image (sitkFloat32 lib)))
           (\<lambda>fixed_image.
              and_then (sitk_image lib (Cast moving_image (sitkFloat32 lib)))
                (\<lambda>moving_image.
                   and_then
                     (sitk_transform lib
                        (CenteredTransformInitializer fixed_image moving_image
                           VersorRigid3DTransform moments))
                     (\<lambda>initial_transform.
                        and_then
                          (sitk_image lib
                             (ResampleUnder moving_image fixed_image initial_transform))
                          (\<lambda>aligned_image.
                             and_then (sitk_image lib (Cast aligned_image moving_image_type))
                               (\<lambda>aligned_image. returns (aligned_image, initial_transform)))))))"

text \<open>
  The three selections of \<^verbatim>\<open>initial_registration\<close>, each an \<^verbatim>\<open>if\<close>/\<^verbatim>\<open>elif\<close> chain
  on a string. Only the chain on \<^verbatim>\<open>reg_method\<close> ends in an \<^verbatim>\<open>else\<close>.
\<close>

definition select_metric :: "string \<Rightarrow> int \<Rightarrow> registration_method \<Rightarrow> registration_method" where
  "select_metric metric_name ants_radius registration =
     (if metric_name = ''correlation'' then registration\<lparr>Metric := Some Correlation\<rparr>
      else if metric_name = ''mean_squares'' then registration\<lparr>Metric := Some MeanSquares\<rparr>
      else if metric_name = ''mattes_mi'' then
        registration\<lparr>Metric := Some MattesMutualInformation\<rparr>
      else if metric_name = ''joint_hist_mi'' then
        registration\<lparr>Metric := Some JointHistogramMutualInformation\<rparr>
      else if metric_name = ''ants'' then
        registration\<lparr>Metric := Some (ANTSNeighborhoodCorrelation ants_radius)\<rparr>
      else registration)"

definition no_such_method :: string where
  "no_such_method =
     ''You have selected a registration method that does not exist.'' @ [CHR 0x0A] @
     '' Please select from Translation, Similarity, Affine, Rigid, ScaleVersor, ScaleSkewVersor''"

definition select_transform :: "string \<Rightarrow> registration_method \<Rightarrow> error + registration_method" where
  "select_transform reg_method registration =
     (if lower reg_method = ''translation'' then
        Inr (registration\<lparr>InitialTransform := Some (TranslationTransform 3)\<rparr>)
      else if lower reg_method = ''similarity'' then
        Inr (registration\<lparr>InitialTransform := Some Similarity3DTransform\<rparr>)
      else if lower reg_method = ''affine'' then
        Inr (registration\<lparr>InitialTransform := Some (AffineTransform 3)\<rparr>)
      else if lower reg_method = ''rigid'' then
        Inr (registration\<lparr>InitialTransform := Some VersorRigid3DTransform\<rparr>)
      else if lower reg_method = ''scaleversor'' then
        Inr (registration\<lparr>InitialTransform := Some ScaleVersor3DTransform\<rparr>)
      else if lower reg_method = ''scaleskewversor'' then
        Inr (registration\<lparr>InitialTransform := Some ScaleSkewVersor3DTransform\<rparr>)
      else Inl (ValueError no_such_method))"

definition select_optimiser ::
  "string \<Rightarrow> int \<Rightarrow> bool \<Rightarrow> registration_method \<Rightarrow> registration_method" where
  "select_optimiser optimiser number_of_iterations verbose registration =
     (if lower optimiser = ''lbfgsb'' then
        registration\<lparr>Optimizer :=
          Some (LBFGSB (1 / 100000) number_of_iterations 50 1024 10000000 verbose)\<rparr>
      else if lower optimiser = ''exhaustive'' then
        registration\<lparr>Optimizer := Some (Exhaustive [10, 10, 10, 10, 10, 10])\<rparr>
      else if lower optimiser = ''gradient_descent_line_search'' then
        registration\<lparr>Optimizer := Some (GradientDescentLineSearch 1 number_of_iterations)\<rparr>
      else if lower optimiser = ''gradient_descent'' then
        registration\<lparr>Optimizer := Some (GradientDescent 1 number_of_iterations)\<rparr>
      else registration)"

text \<open>
  The registration method as \<^verbatim>\<open>initial_registration\<close> has configured it when it
  reaches the selection of the transform: every setter call from
  \<^verbatim>\<open>SetShrinkFactorsPerLevel\<close> to \<^verbatim>\<open>SetMetricFixedMask\<close>, in the source's order. A
  mask argument is \<open>None\<close> for the default \<^verbatim>\<open>False\<close>.
\<close>

definition configured_before_transform ::
  "sitk \<Rightarrow> transform \<Rightarrow> image option \<Rightarrow> image option \<Rightarrow> string \<Rightarrow> real list \<Rightarrow> real list
     \<Rightarrow> real \<Rightarrow> int \<Rightarrow> registration_method" where
  "configured_before_transform lib initial_transform fixed_structure moving_structure metric_name
     shrink_factors smooth_sigmas sampling_rate ants_radius =
     (let registration = ImageRegistrationMethod;
          registration = registration\<lparr>ShrinkFactorsPerLevel := Some shrink_factors\<rparr>;
          registration = registration\<lparr>SmoothingSigmasPerLevel := Some smooth_sigmas\<rparr>;
          registration = registration\<lparr>SmoothingSigmasAreSpecifiedInPhysicalUnits := True\<rparr>;
          registration = registration\<lparr>MovingInitialTransform := Some initial_transform\<rparr>;
          registration = select_metric metric_name ants_radius registration;
          registration = registration\<lparr>RegistrationInterpolator := Some (sitkLinear lib)\<rparr>;
          registration = registration\<lparr>MetricSamplingPercentage := Some sampling_rate\<rparr>;
          registration = registration\<lparr>MetricSamplingStrategy := Some REGULAR\<rparr>;
          registration = registration\<lparr>OptimizerScalesFromPhysicalShift := True\<rparr>;
          registration =
            (case moving_structure of
               Some m \<Rightarrow> registration\<lparr>MetricMovingMask := Some m\<rparr>
             | None \<Rightarrow> registration);
          registration =
            (case fixed_structure of
               Some m \<Rightarrow> registration\<lparr>MetricFixedMask := Some m\<rparr>
             | None \<Rightarrow> registration)
      in registration)"

definition initial_registration ::
  "sitk \<Rightarrow> image \<Rightarrow> image \<Rightarrow> image option \<Rightarrow> image option \<Rightarrow> string \<Rightarrow> string \<Rightarrow> string
     \<Rightarrow> real list \<Rightarrow> real list \<Rightarrow> real \<Rightarrow> int \<Rightarrow> int \<Rightarrow> int \<Rightarrow> real \<Rightarrow> bool
     \<Rightarrow> (image \<times> transform) run" where
  "initial_registration lib fixed_image moving_image fixed_structure moving_structure reg_method
     metric_name optimiser shrink_factors smooth_sigmas sampling_rate ants_radius final_interp
     number_of_iterations default_value verbose =
     and_then (sitk_image lib (Cast fixed_image (sitkFloat32 lib)))
       (\<lambda>fixed_image.
          let moving_image_type = GetPixelID moving_image
          in and_then (sitk_image lib (Cast moving_image (sitkFloat32 lib)))
               (\<lambda>moving_image.
                  and_then
                    (sitk_transform lib
                       (CenteredTransformInitializer fixed_image moving_image Euler3DTransform
                          False))
                    (\<lambda>initial_transform.
                       let registration =
                             configured_before_transform lib initial_transform fixed_structure
                               moving_structure metric_name shrink_factors smooth_sigmas
                               sampling_rate ants_radius
                       in and_then (python (select_transform reg_method registration))
                            (\<lambda>registration.
                               let registration =
                                     select_optimiser optimiser number_of_iterations verbose
                                       registration;
                                   registration =
                                     (if verbose then registration\<lparr>IterationCommand := True\<rparr>
                                      else registration)
                               in and_then
                                    (sitk_transform lib
                                       (RegistrationExecute registration fixed_image moving_image))
                                    (\<lambda>output_transform.
                                       let combined_transform =
                                             CompositeTransform [initial_transform, output_transform]
                                       in and_then
                                            (transform_propagation lib fixed_image moving_image
                                               combined_transform False default_value final_interp)
                                            (\<lambda>registered_image.
                                               and_then
                                                 (sitk_image lib
                                                    (Cast registered_image moving_image_type))
                                                 (\<lambda>registered_image.
                                                    returns
                                                      (registered_image, combined_transform))))))))"

section \<open>Control-point spacing\<close>


section \<open>A library to run the model on\<close>

text \<open>
  SimpleITK itself is not part of the module. To run the model on concrete images a
  library is put in its place. For the distance map it reads the samples as a single row
  of unit spacing: a sample of the mask with a background neighbour is on the border and
  has distance 0; every other sample has the distance to the nearest border sample,
  positive inside the mask and negative outside.
\<close>

definition border_indices :: "real list \<Rightarrow> nat list" where
  "border_indices xs =
     filter
       (\<lambda>i. xs ! i \<noteq> 0 \<and>
            ((0 < i \<and> xs ! (i - 1) = 0) \<or> (Suc i < length xs \<and> xs ! Suc i = 0)))
       [0..<length xs]"

definition row_signed_distance :: "real list \<Rightarrow> real list" where
  "row_signed_distance xs =
     (let border = border_indices xs
      in map (\<lambda>i. if border = [] then 0
                   else let d = real_of_int (Min (set (map (\<lambda>j. \<bar>int i - int j\<bar>) border)))
                        in if xs ! i \<noteq> 0 then d else - d)
           [0..<length xs])"

text \<open>
  \<open>plain_answers\<close> answers every call with an image on the grid the call asks for and
  with a transform of the family the call was given. It stands in for SimpleITK where a
  run is evaluated on concrete images; the general statements below hold for every
  library.
\<close>

fun plain_answers :: "call \<Rightarrow> answer option" where
  "plain_answers (Cast img pixel_id) = Some (AnImage (img\<lparr>GetPixelID := pixel_id\<rparr>))"
| "plain_answers (SignedMaurerDistanceMap img inside squared spacing) =
     Some (AnImage (img\<lparr>GetPixelID := 8,
       GetArrayFromImage := row_signed_distance (GetArrayFromImage img)\<rparr>))"
| "plain_answers (CenteredTransformInitializer f m t mode) = Some (ATransform (Fitted t []))"
| "plain_answers (RegistrationExecute method f m) =
     (case InitialTransform method of
        Some t \<Rightarrow> Some (ATransform (Fitted t []))
      | None \<Rightarrow> None)"
| "plain_answers (ResampleExecute flt img) =
     (case ReferenceImage flt of
        Some reference \<Rightarrow> Some (AnImage (reference\<lparr>GetPixelID := GetPixelID img\<rparr>))
      | None \<Rightarrow> None)"
| "plain_answers (DemonsExecute flt f m field) = Some (AnImage field)"
| "plain_answers (DiscreteGaussian img variance width) = Some (AnImage img)"
| "plain_answers (Resample img sz t interp origin spacing direction default_value pixel_id) =
     Some (AnImage \<lparr>GetSize = sz, GetSpacing = spacing, GetOrigin = origin,
       GetDirection = direction, GetPixelID = pixel_id, GetArrayFromImage = []\<rparr>)"
| "plain_answers (ResampleTo img reference) =
     Some (AnImage (reference\<lparr>GetPixelID := GetPixelID img\<rparr>))"
| "plain_answers (ResampleUnder img reference t) =
     Some (AnImage (reference\<lparr>GetPixelID := GetPixelID img\<rparr>))"
| "plain_answers (TransformToDisplacementField t pixel_id sz origin spacing direction) =
     Some (AnImage \<lparr>GetSize = sz, GetSpacing = spacing, GetOrigin = origin,
       GetDirection = direction, GetPixelID = pixel_id, GetArrayFromImage = []\<rparr>)"
| "plain_answers (NewImage sz pixel_id) =
     Some (AnImage \<lparr>GetSize = sz, GetSpacing = map (\<lambda>_. 1) sz, GetOrigin = map (\<lambda>_. 0) sz,
       GetDirection = [], GetPixelID = pixel_id, GetArrayFromImage = []\<rparr>)"
| "plain_answers (CopyInformation img source) =
     Some (AnImage (img\<lparr>GetSpacing := GetSpacing source, GetOrigin := GetOrigin source,
       GetDirection := GetDirection source\<rparr>))"
| "plain_answers (BinaryThreshold img lower_threshold upper_threshold) =
     Some (AnImage (img\<lparr>GetPixelID := 1\<rparr>))"

text \<open>
  The interpolator numbers are those of the docstring of
  \<^verbatim>\<open>fast_symmetric_forces_demons_registration\<close>: 1 nearest neighbour, 2 linear.
\<close>

definition plain_sitk :: sitk where
  "plain_sitk =
     \<lparr>sitkNearestNeighbor = 1, sitkLinear = 2, sitkFloat32 = 8, sitkVectorFloat64 = 16,
      answers = plain_answers\<rparr>"

definition square :: "int \<Rightarrow> int \<Rightarrow> image" where
  "square n pixel_id =
     \<lparr>GetSize = [n, n], GetSpacing = [1, 1], GetOrigin = [0, 0], GetDirection = [1, 0, 0, 1],
      GetPixelID = pixel_id, GetArrayFromImage = []\<rparr>"

text \<open>Which library call a call is.\<close>

fun is_ResampleExecute :: "call \<Rightarrow> bool" where
  "is_ResampleExecute (ResampleExecute flt img) = True"
| "is_ResampleExecute _ = False"

fun is_RegistrationExecute :: "call \<Rightarrow> bool" where
  "is_RegistrationExecute (RegistrationExecute method f m) = True"
| "is_RegistrationExecute _ = False"


section \<open>Parts of the functions, named\<close>


definition transform_families :: "string list" where
  "transform_families =
     [''translation'', ''similarity'', ''affine'', ''rigid'', ''scaleversor'', ''scaleskewversor'']"

definition ready_to_execute ::
  "string \<Rightarrow> int \<Rightarrow> bool \<Rightarrow> registration_method \<Rightarrow> registration_method" where
  "ready_to_execute optimiser number_of_iterations verbose registration =
     (let registration = select_optimiser optimiser number_of_iterations verbose registration
      in if verbose then registration\<lparr>IterationCommand := True\<rparr> else registration)"

definition configured_demons :: "int \<Rightarrow> bool \<Rightarrow> demons_filter" where
  "configured_demons ncores verbose =
     (let registration_method = FastSymmetricForcesDemonsRegistrationFilter;
          registration_method = registration_method\<lparr>NumberOfThreads := Some ncores\<rparr>;
          registration_method = registration_method\<lparr>SmoothUpdateField := Some True\<rparr>;
          registration_method = registration_method\<lparr>SmoothDisplacementField := Some True\<rparr>;
          registration_method = registration_method\<lparr>StandardDeviations := Some 1.5\<rparr>
      in if verbose then registration_method\<lparr>DemonsIterationCommand := True\<rparr>
         else registration_method)"

definition chosen_sigmas :: "real list option \<Rightarrow> real \<Rightarrow> real list \<Rightarrow> real list" where
  "chosen_sigmas smoothing_sigmas smoothing_sigma_factor resolution_staging =
     (case smoothing_sigmas of
        None \<Rightarrow> map (\<lambda>i. i * smoothing_sigma_factor) resolution_staging
      | Some [] \<Rightarrow> map (\<lambda>i. i * smoothing_sigma_factor) resolution_staging
      | Some sigmas \<Rightarrow> sigmas)"

section \<open>Concrete inputs\<close>

text \<open>
  Images, a registration method and call lists on which the functions are run: a cube and
  a slab of float voxels, a row of nine samples whose first three form a mask, the largest
  absolute sample of an image, and the runs of the demons registration on an 8 by 8 image
  with the schedule \<open>[2, 1]\<close>.
\<close>

definition cube :: "int \<Rightarrow> real \<Rightarrow> image" where
  "cube n s = \<lparr>GetSize = [n, n, n], GetSpacing = [s, s, s], GetOrigin = [0, 0, 0],
     GetDirection = [1, 0, 0, 0, 1, 0, 0, 0, 1], GetPixelID = 8, GetArrayFromImage = []\<rparr>"


definition volume :: image where
  "volume = cube 8 1"



definition rigid_method :: registration_method where
  "rigid_method =
     (configured_before_transform plain_sitk (Fitted Euler3DTransform []) None None
        ''no_such_metric'' [8, 2, 1] [4, 2, 0] (1 / 4) 3)\<lparr>InitialTransform := Some VersorRigid3DTransform\<rparr>"

definition half_level :: image where
  "half_level = \<lparr>GetSize = [4, 4], GetSpacing = [7 / 3, 7 / 3], GetOrigin = [0, 0],
     GetDirection = [1, 0, 0, 1], GetPixelID = 8, GetArrayFromImage = []\<rparr>"

definition two_levels :: "call list" where
  "two_levels =
     [Resample (square 8 8) [8, 8] Transform 2 [0, 0] [1, 1] [1, 0, 0, 1] 0 8,
      Resample (square 8 8) [8, 8] Transform 2 [0, 0] [1, 1] [1, 0, 0, 1] 0 8,
      Resample (square 8 8) [4, 4] Transform 2 [0, 0] [7 / 3, 7 / 3] [1, 0, 0, 1] 0 8,
      Resample (square 8 8) [4, 4] Transform 2 [0, 0] [7 / 3, 7 / 3] [1, 0, 0, 1] 0 8]"

definition plain_structure_calls :: "call list" where
  "plain_structure_calls =
     [Cast (square 8 8) 8, Cast (square 8 8) 8] @ two_levels @
     [NewImage [4, 4] 16,
      CopyInformation
        \<lparr>GetSize = [4, 4], GetSpacing = [1, 1], GetOrigin = [0, 0], GetDirection = [],
         GetPixelID = 16, GetArrayFromImage = []\<rparr> half_level,
      DemonsExecute ((configured_demons 1 False)\<lparr>NumberOfIterations := Some 10\<rparr>)
        half_level half_level (half_level\<lparr>GetPixelID := 16\<rparr>),
      ResampleTo (half_level\<lparr>GetPixelID := 16\<rparr>) (square 8 8),
      DemonsExecute ((configured_demons 1 False)\<lparr>NumberOfIterations := Some 5\<rparr>)
        (square 8 8) (square 8 8) (square 8 16),
      ResampleTo (square 8 16) (square 8 16),
      ResampleExecute
        \<lparr>ReferenceImage = Some (square 8 8),
         ResampleTransform = Some (DisplacementFieldTransform (square 8 16)),
         DefaultPixelValue = Some 0, Interpolator = Some 2\<rparr> (square 8 8),
      Cast (square 8 8) 8,
      BinaryThreshold (square 8 8) (1 / 100000) 100,
      CopyInformation (square 8 1) (square 8 8),
      Cast (square 8 1) 8,
      ResampleTo (square 8 16) (square 8 8)]"

section \<open>Runs and library calls\<close>

lemma and_then_returns [simp]: "and_then (returns x) f = f x"
  by (simp add: and_then_def returns_def split: prod.splits)

lemma and_then_raises [simp]: "and_then (raises e) f = raises e"
  by (simp add: and_then_def raises_def)

lemma and_then_failed [simp]: "and_then (t, Inl e) f = (t, Inl e)"
  by (simp add: and_then_def)

lemma and_then_passed [simp]: "and_then (t, Inr x) f = (t @ fst (f x), snd (f x))"
  by (simp add: and_then_def split: prod.splits)

lemma and_then_returns_right [simp]: "and_then m returns = m"
  by (cases m) (auto simp: and_then_def returns_def split: sum.splits)

lemma snd_and_then_Inl:
  "snd (and_then m f) = Inl e \<longleftrightarrow> snd m = Inl e \<or> (\<exists>x. snd m = Inr x \<and> snd (f x) = Inl e)"
  by (cases m) (auto simp: and_then_def split: sum.splits prod.splits)

lemma snd_and_then_Inr:
  "snd (and_then m f) = Inr y \<longleftrightarrow> (\<exists>x. snd m = Inr x \<and> snd (f x) = Inr y)"
  by (cases m) (auto simp: and_then_def split: sum.splits prod.splits)

lemma fst_and_then:
  "fst (and_then m f) = fst m @ (case snd m of Inl e \<Rightarrow> [] | Inr x \<Rightarrow> fst (f x))"
  by (cases m) (auto simp: and_then_def split: sum.splits prod.splits)

lemma python_Inr [simp]: "python (Inr x) = returns x"
  by (simp add: python_def returns_def)

lemma python_Inl [simp]: "python (Inl e) = raises e"
  by (simp add: python_def raises_def)

lemma calls_simps [simp]:
  "calls (t, r) = t" "calls (returns x) = []" "calls (raises e) = []"
  by (simp_all add: calls_def returns_def raises_def)

lemma outcome_simps [simp]:
  "outcome (t, r) = r" "outcome (returns x) = Inr x" "outcome (raises e) = Inl e"
  by (simp_all add: outcome_def returns_def raises_def)

lemma sitk_image_answered:
  "answers lib c = Some (AnImage i) \<Longrightarrow> sitk_image lib c = ([c], Inr i)"
  by (simp add: sitk_image_def)

lemma sitk_image_cases:
  "(\<exists>i. answers lib c = Some (AnImage i) \<and> sitk_image lib c = ([c], Inr i))
   \<or> sitk_image lib c = ([c], Inl SitkError)"
  by (auto simp: sitk_image_def split: option.splits answer.splits)

lemma sitk_image_calls [simp]: "fst (sitk_image lib c) = [c]"
  by (simp add: sitk_image_def)

lemma sitk_image_no_value_error: "snd (sitk_image lib c) \<noteq> Inl (ValueError msg)"
  by (simp add: sitk_image_def split: option.splits answer.splits)

section \<open>Rounding and numpy arithmetic\<close>

lemma py_int_half_up: "0 \<le> x \<Longrightarrow> py_int (x + 1 / 2) = round x"
  by (simp add: py_int_def round_def)




section \<open>Control-point mesh size\<close>



section \<open>Structures are resampled with nearest neighbour only\<close>

text \<open>
  C1. With \<^verbatim>\<open>structure=True\<close> and an interpolator other than nearest neighbour,
  \<^verbatim>\<open>transform_propagation\<close> and \<^verbatim>\<open>apply_field\<close> raise the \<^verbatim>\<open>ValueError\<close> before any
  library call: the run has no call at all, so no resampling was executed. With
  \<^verbatim>\<open>structure=True\<close> and nearest neighbour no \<^verbatim>\<open>ValueError\<close> is raised, and the
  resampling filter is executed with the nearest-neighbour interpolator: it is the first
  call of \<^verbatim>\<open>transform_propagation\<close>, and the call of \<^verbatim>\<open>apply_field\<close> that follows the
  cast of the input image to float.
\<close>

theorem structure_needs_nearest_neighbour:
  "(interp \<noteq> sitkNearestNeighbor lib \<longrightarrow>
      transform_propagation lib fixed_image moving_image t True default_value interp
        = ([], Inl (ValueError ''Structure interpolation should be nearest neighbour.''))
    \<and> apply_field lib input_image t True default_value interp
        = ([], Inl (ValueError ''Structure interpolation should be nearest neighbour.'')))
   \<and> (interp = sitkNearestNeighbor lib \<longrightarrow>
      hd (calls (transform_propagation lib fixed_image moving_image t True default_value interp))
        = ResampleExecute
            \<lparr>ReferenceImage = Some fixed_image, ResampleTransform = Some t,
             DefaultPixelValue = Some default_value,
             Interpolator = Some (sitkNearestNeighbor lib)\<rparr> moving_image
    \<and> (\<forall>msg. outcome (transform_propagation lib fixed_image moving_image t True default_value interp)
          \<noteq> Inl (ValueError msg))
    \<and> (\<forall>float_image. answers lib (Cast input_image (sitkFloat32 lib)) = Some (AnImage float_image) \<longrightarrow>
          calls (apply_field lib input_image t True default_value interp) ! 1
            = ResampleExecute
                \<lparr>ReferenceImage = Some input_image, ResampleTransform = Some t,
                 DefaultPixelValue = Some default_value,
                 Interpolator = Some (sitkNearestNeighbor lib)\<rparr> float_image)
    \<and> (\<forall>msg. outcome (apply_field lib input_image t True default_value interp)
          \<noteq> Inl (ValueError msg)))"
proof (intro conjI impI allI)
  assume "interp \<noteq> sitkNearestNeighbor lib"
  then show "transform_propagation lib fixed_image moving_image t True default_value interp
        = ([], Inl (ValueError ''Structure interpolation should be nearest neighbour.''))"
    by (simp add: transform_propagation_def raises_def)
next
  assume "interp \<noteq> sitkNearestNeighbor lib"
  then show "apply_field lib input_image t True default_value interp
        = ([], Inl (ValueError ''Structure interpolation should be nearest neighbour.''))"
    by (simp add: apply_field_def raises_def)
next
  assume nn: "interp = sitkNearestNeighbor lib"
  let ?r = "\<lparr>ReferenceImage = Some fixed_image, ResampleTransform = Some t,
             DefaultPixelValue = Some default_value,
             Interpolator = Some (sitkNearestNeighbor lib)\<rparr>"
  from sitk_image_cases [of lib "ResampleExecute ?r moving_image"]
  show "hd (calls (transform_propagation lib fixed_image moving_image t True default_value interp))
        = ResampleExecute ?r moving_image"
    using nn by (auto simp: transform_propagation_def ResampleImageFilter_def)
next
  fix msg
  assume nn: "interp = sitkNearestNeighbor lib"
  let ?r = "\<lparr>ReferenceImage = Some fixed_image, ResampleTransform = Some t,
             DefaultPixelValue = Some default_value,
             Interpolator = Some (sitkNearestNeighbor lib)\<rparr>"
  show "outcome (transform_propagation lib fixed_image moving_image t True default_value interp)
          \<noteq> Inl (ValueError msg)"
    using nn
    by (simp add: transform_propagation_def ResampleImageFilter_def outcome_def
        snd_and_then_Inl sitk_image_no_value_error)
next
  fix float_image
  assume nn: "interp = sitkNearestNeighbor lib"
    and c: "answers lib (Cast input_image (sitkFloat32 lib)) = Some (AnImage float_image)"
  show "calls (apply_field lib input_image t True default_value interp) ! 1
            = ResampleExecute
                \<lparr>ReferenceImage = Some input_image, ResampleTransform = Some t,
                 DefaultPixelValue = Some default_value,
                 Interpolator = Some (sitkNearestNeighbor lib)\<rparr> float_image"
    using nn
    by (simp add: apply_field_def ResampleImageFilter_def sitk_image_answered [OF c] Let_def
        fst_and_then)
next
  fix msg
  assume nn: "interp = sitkNearestNeighbor lib"
  let ?r = "\<lparr>ReferenceImage = Some input_image, ResampleTransform = Some t,
                 DefaultPixelValue = Some default_value,
                 Interpolator = Some (sitkNearestNeighbor lib)\<rparr>"
  show "outcome (apply_field lib input_image t True default_value interp) \<noteq> Inl (ValueError msg)"
    using nn
    by (simp add: apply_field_def ResampleImageFilter_def outcome_def
        snd_and_then_Inl sitk_image_no_value_error)
qed

theorem structure_needs_nearest_neighbour_witness:
  "transform_propagation plain_sitk (square 4 8) (square 6 1) Euler3DTransform True 0 2
     = ([], Inl (ValueError ''Structure interpolation should be nearest neighbour.''))
   \<and> apply_field plain_sitk (square 6 1) Euler3DTransform True 0 2
     = ([], Inl (ValueError ''Structure interpolation should be nearest neighbour.''))
   \<and> hd (calls (transform_propagation plain_sitk (square 4 8) (square 6 1) Euler3DTransform True 0 1))
     = ResampleExecute
         \<lparr>ReferenceImage = Some (square 4 8), ResampleTransform = Some Euler3DTransform,
          DefaultPixelValue = Some 0, Interpolator = Some 1\<rparr> (square 6 1)
   \<and> calls (apply_field plain_sitk (square 6 1) Euler3DTransform True 0 1) ! 1
     = ResampleExecute
         \<lparr>ReferenceImage = Some (square 6 1), ResampleTransform = Some Euler3DTransform,
          DefaultPixelValue = Some 0, Interpolator = Some 1\<rparr> (square 6 8)"
  using structure_needs_nearest_neighbour
      [of 2 plain_sitk "square 4 8" "square 6 1" Euler3DTransform 0 "square 6 1"]
    structure_needs_nearest_neighbour
      [of 1 plain_sitk "square 4 8" "square 6 1" Euler3DTransform 0 "square 6 1"]
  by (simp add: plain_sitk_def square_def)

section \<open>The grid of a pyramid level\<close>




lemma rounded_quotient_round:
  "0 \<le> sz \<Longrightarrow> 0 < sf \<Longrightarrow> rounded_quotient sz sf = Inr (round (real_of_int sz / sf))"
proof -
  assume "0 \<le> sz" "0 < sf"
  then have "0 \<le> real_of_int sz / sf" by simp
  then have "py_int (real_of_int sz / sf + 1 / 2) = round (real_of_int sz / sf)"
    by (rule py_int_half_up)
  with \<open>0 < sf\<close> show ?thesis
    by (simp add: rounded_quotient_def py_true_divide_def)
qed














section \<open>Normalised distance maps\<close>






section \<open>Option names of the linear registration\<close>

lemma select_transform_unrecognised:
  "lower reg_method \<notin> set transform_families \<Longrightarrow>
     select_transform reg_method registration = Inl (ValueError no_such_method)"
  by (simp add: select_transform_def transform_families_def)

lemma sitk_transform_answered:
  "answers lib c = Some (ATransform t) \<Longrightarrow> sitk_transform lib c = ([c], Inr t)"
  by (simp add: sitk_transform_def)

lemma sitk_transform_calls [simp]: "fst (sitk_transform lib c) = [c]"
  by (simp add: sitk_transform_def)

lemma snd_raises [simp]: "snd (raises e) = Inl e" and fst_raises [simp]: "fst (raises e) = []"
  by (simp_all add: raises_def)

lemma run_unrecognised:
  assumes "lower reg_method \<notin> set transform_families"
  shows "initial_registration lib fixed_image moving_image fixed_structure
               moving_structure reg_method metric_name optimiser shrink_factors smooth_sigmas
               sampling_rate ants_radius final_interp number_of_iterations default_value verbose =
      and_then (sitk_image lib (Cast fixed_image (sitkFloat32 lib)))
       (\<lambda>fixed_image. and_then (sitk_image lib (Cast moving_image (sitkFloat32 lib)))
          (\<lambda>moving_image. and_then
              (sitk_transform lib
                 (CenteredTransformInitializer fixed_image moving_image Euler3DTransform False))
              (\<lambda>initial_transform. raises (ValueError no_such_method))))"
  unfolding initial_registration_def Let_def
  by (simp only: select_transform_unrecognised [OF assms] python_Inl and_then_raises)

lemma list_ex_and_then:
  "list_ex P (fst (and_then m f)) \<longleftrightarrow>
     list_ex P (fst m) \<or> (\<exists>x. snd m = Inr x \<and> list_ex P (fst (f x)))"
  by (cases m) (auto simp: and_then_def split: sum.splits prod.splits)

lemma and_then_always_fails:
  assumes "\<And>x. \<exists>e. snd (f x) = Inl e"
  shows "\<exists>e. snd (and_then m f) = Inl e"
proof (cases "snd m")
  case (Inl e)
  then show ?thesis by (auto simp: snd_and_then_Inl)
next
  case (Inr x)
  from assms [of x] obtain e where "snd (f x) = Inl e" by blast
  with Inr show ?thesis by (auto simp: snd_and_then_Inl)
qed

text \<open>
  C3, as the code has it. Of the three option names only \<^verbatim>\<open>reg_method\<close> is checked. When
  its lower-case form is none of the six transform families, \<^verbatim>\<open>initial_registration\<close>
  ends with an exception and never calls \<^verbatim>\<open>registration.Execute\<close>, whatever the metric
  and the optimiser names are; once the library has answered the two casts and the
  initialiser, the exception is the \<^verbatim>\<open>ValueError\<close> that lists the families, and these
  three calls are all the run made.
\<close>

theorem unrecognised_reg_method_aborts:
  assumes "lower reg_method \<notin> set transform_families"
  shows "\<not> list_ex is_RegistrationExecute
            (calls (initial_registration lib fixed_image moving_image fixed_structure
               moving_structure reg_method metric_name optimiser shrink_factors smooth_sigmas
               sampling_rate ants_radius final_interp number_of_iterations default_value verbose))
       \<and> (\<exists>e. outcome (initial_registration lib fixed_image moving_image fixed_structure
               moving_structure reg_method metric_name optimiser shrink_factors smooth_sigmas
               sampling_rate ants_radius final_interp number_of_iterations default_value verbose)
             = Inl e)
       \<and> (answers lib (Cast fixed_image (sitkFloat32 lib)) = Some (AnImage fixed_float)
          \<and> answers lib (Cast moving_image (sitkFloat32 lib)) = Some (AnImage moving_float)
          \<and> answers lib (CenteredTransformInitializer fixed_float moving_float Euler3DTransform False)
              = Some (ATransform initial_transform)
          \<longrightarrow> initial_registration lib fixed_image moving_image fixed_structure
               moving_structure reg_method metric_name optimiser shrink_factors smooth_sigmas
               sampling_rate ants_radius final_interp number_of_iterations default_value verbose
             = ([Cast fixed_image (sitkFloat32 lib), Cast moving_image (sitkFloat32 lib),
                 CenteredTransformInitializer fixed_float moving_float Euler3DTransform False],
                Inl (ValueError no_such_method)))"
proof -
  note run = run_unrecognised [OF assms, of lib fixed_image moving_image fixed_structure
      moving_structure metric_name optimiser shrink_factors smooth_sigmas sampling_rate
      ants_radius final_interp number_of_iterations default_value verbose]
  have a: "\<not> list_ex is_RegistrationExecute
      (fst (and_then (sitk_image lib (Cast fixed_image (sitkFloat32 lib)))
       (\<lambda>fixed_image. and_then (sitk_image lib (Cast moving_image (sitkFloat32 lib)))
          (\<lambda>moving_image. and_then
              (sitk_transform lib
                 (CenteredTransformInitializer fixed_image moving_image Euler3DTransform False))
              (\<lambda>initial_transform. raises (ValueError no_such_method))))))"
    by (simp add: list_ex_and_then)
  have b: "\<exists>e. snd (and_then (sitk_image lib (Cast fixed_image (sitkFloat32 lib)))
       (\<lambda>fixed_image. and_then (sitk_image lib (Cast moving_image (sitkFloat32 lib)))
          (\<lambda>moving_image. and_then
              (sitk_transform lib
                 (CenteredTransformInitializer fixed_image moving_image Euler3DTransform False))
              (\<lambda>initial_transform. raises (ValueError no_such_method))))) = Inl e"
    by (intro and_then_always_fails) simp
  have c: "and_then (sitk_image lib (Cast fixed_image (sitkFloat32 lib)))
       (\<lambda>fixed_image. and_then (sitk_image lib (Cast moving_image (sitkFloat32 lib)))
          (\<lambda>moving_image. and_then
              (sitk_transform lib
                 (CenteredTransformInitializer fixed_image moving_image Euler3DTransform False))
              (\<lambda>initial_transform. raises (ValueError no_such_method))))
         = ([Cast fixed_image (sitkFloat32 lib), Cast moving_image (sitkFloat32 lib),
                 CenteredTransformInitializer fixed_float moving_float Euler3DTransform False],
                Inl (ValueError no_such_method))"
    if "answers lib (Cast fixed_image (sitkFloat32 lib)) = Some (AnImage fixed_float)"
      "answers lib (Cast moving_image (sitkFloat32 lib)) = Some (AnImage moving_float)"
      "answers lib (CenteredTransformInitializer fixed_float moving_float Euler3DTransform False)
              = Some (ATransform initial_transform)"
    using that by (simp add: sitk_image_answered sitk_transform_answered)
  from a b c show ?thesis
    unfolding run calls_def outcome_def by blast
qed

section \<open>Runs of the linear registration\<close>

lemma snd_sitk_image_Inr [simp]:
  "snd (sitk_image lib c) = Inr i \<longleftrightarrow> answers lib c = Some (AnImage i)"
  by (auto simp: sitk_image_def split: option.splits answer.splits)

lemma snd_sitk_transform_Inr [simp]:
  "snd (sitk_transform lib c) = Inr t \<longleftrightarrow> answers lib c = Some (ATransform t)"
  by (auto simp: sitk_transform_def split: option.splits answer.splits)

lemma snd_python [simp]: "snd (python r) = r" and fst_python [simp]: "fst (python r) = []"
  by (simp_all add: python_def)

lemma snd_returns [simp]: "snd (returns x) = Inr x" and fst_returns [simp]: "fst (returns x) = []"
  by (simp_all add: returns_def)

lemma transform_propagation_plain_run:
  assumes "answers lib (ResampleExecute
             \<lparr>ReferenceImage = Some fixed_image, ResampleTransform = Some t,
              DefaultPixelValue = Some default_value, Interpolator = Some interp\<rparr> moving_image)
           = Some (AnImage resampled)"
    and "answers lib (Cast resampled (GetPixelID moving_image)) = Some (AnImage output_image)"
  shows "transform_propagation lib fixed_image moving_image t False default_value interp =
    ([ResampleExecute
             \<lparr>ReferenceImage = Some fixed_image, ResampleTransform = Some t,
              DefaultPixelValue = Some default_value, Interpolator = Some interp\<rparr> moving_image,
      Cast resampled (GetPixelID moving_image)], Inr output_image)"
  using assms
  by (simp add: transform_propagation_def ResampleImageFilter_def sitk_image_answered)


lemma initial_registration_shape:
  "initial_registration lib fixed_image moving_image fixed_structure moving_structure reg_method
     metric_name optimiser shrink_factors smooth_sigmas sampling_rate ants_radius final_interp
     number_of_iterations default_value verbose =
   and_then (sitk_image lib (Cast fixed_image (sitkFloat32 lib)))
     (\<lambda>fixed_float.
        and_then (sitk_image lib (Cast moving_image (sitkFloat32 lib)))
          (\<lambda>moving_float.
             and_then
               (sitk_transform lib
                  (CenteredTransformInitializer fixed_float moving_float Euler3DTransform False))
               (\<lambda>initial_transform.
                  and_then
                    (python
                       (select_transform reg_method
                          (configured_before_transform lib initial_transform fixed_structure
                             moving_structure metric_name shrink_factors smooth_sigmas
                             sampling_rate ants_radius)))
                    (\<lambda>registration.
                       and_then
                         (sitk_transform lib
                            (RegistrationExecute
                               (ready_to_execute optimiser number_of_iterations verbose registration)
                               fixed_float moving_float))
                         (\<lambda>output_transform.
                            and_then
                              (transform_propagation lib fixed_float moving_float
                                 (CompositeTransform [initial_transform, output_transform]) False
                                 default_value final_interp)
                              (\<lambda>registered_image.
                                 and_then
                                   (sitk_image lib
                                      (Cast registered_image (GetPixelID moving_image)))
                                   (\<lambda>registered_image.
                                      returns
                                        (registered_image,
                                         CompositeTransform
                                           [initial_transform, output_transform]))))))))"
  unfolding initial_registration_def ready_to_execute_def Let_def ..

lemma initial_registration_run:
  assumes "answers lib (Cast fixed_image (sitkFloat32 lib)) = Some (AnImage fixed_float)"
    and "answers lib (Cast moving_image (sitkFloat32 lib)) = Some (AnImage moving_float)"
    and "answers lib (CenteredTransformInitializer fixed_float moving_float Euler3DTransform False)
           = Some (ATransform initial_transform)"
    and "select_transform reg_method
           (configured_before_transform lib initial_transform fixed_structure moving_structure
              metric_name shrink_factors smooth_sigmas sampling_rate ants_radius) = Inr registration"
    and "answers lib
           (RegistrationExecute
              (ready_to_execute optimiser number_of_iterations verbose registration)
              fixed_float moving_float) = Some (ATransform output_transform)"
    and "answers lib (ResampleExecute
             \<lparr>ReferenceImage = Some fixed_float,
              ResampleTransform = Some (CompositeTransform [initial_transform, output_transform]),
              DefaultPixelValue = Some default_value, Interpolator = Some final_interp\<rparr> moving_float)
           = Some (AnImage resampled)"
    and "answers lib (Cast resampled (GetPixelID moving_float)) = Some (AnImage propagated)"
    and "answers lib (Cast propagated (GetPixelID moving_image)) = Some (AnImage registered_image)"
  shows "initial_registration lib fixed_image moving_image fixed_structure moving_structure
      reg_method metric_name optimiser shrink_factors smooth_sigmas sampling_rate ants_radius
      final_interp number_of_iterations default_value verbose =
    ([Cast fixed_image (sitkFloat32 lib), Cast moving_image (sitkFloat32 lib),
      CenteredTransformInitializer fixed_float moving_float Euler3DTransform False,
      RegistrationExecute (ready_to_execute optimiser number_of_iterations verbose registration)
        fixed_float moving_float,
      ResampleExecute
        \<lparr>ReferenceImage = Some fixed_float,
         ResampleTransform = Some (CompositeTransform [initial_transform, output_transform]),
         DefaultPixelValue = Some default_value, Interpolator = Some final_interp\<rparr> moving_float,
      Cast resampled (GetPixelID moving_float),
      Cast propagated (GetPixelID moving_image)],
     Inr (registered_image, CompositeTransform [initial_transform, output_transform]))"
  unfolding initial_registration_shape
  by (simp add: sitk_image_answered [OF assms(1)] sitk_image_answered [OF assms(2)]
      sitk_transform_answered [OF assms(3)] assms(4) sitk_transform_answered [OF assms(5)]
      transform_propagation_plain_run [OF assms(6,7)] sitk_image_answered [OF assms(8)]
      returns_def)


section \<open>The composite transform\<close>

lemma lower_names:
  "lower ''Elastic'' = ''elastic''"
  "lower ''rigid'' = ''rigid''"
  "lower ''no_such_optimiser'' = ''no_such_optimiser''"
  by code_simp+


text \<open>
  The transform that \<^verbatim>\<open>registration.Execute\<close> optimises is a new transform of the chosen
  family; the initialiser's transform enters the method as its moving-initial transform
  only (\<open>moving_initial_configured\<close>) and no later setter touches it.
\<close>

lemma optimised_transform_is_new:
  assumes "select_transform reg_method registration = Inr registration'"
  shows "InitialTransform registration' \<in>
           Some ` {TranslationTransform 3, Similarity3DTransform, AffineTransform 3,
                   VersorRigid3DTransform, ScaleVersor3DTransform, ScaleSkewVersor3DTransform}"
  using assms by (auto simp: select_transform_def split: if_splits)




lemma plain_rigid_run:
  "initial_registration plain_sitk volume volume None None ''rigid'' ''no_such_metric''
        ''no_such_optimiser'' [8, 2, 1] [4, 2, 0] (1 / 4) 3 2 50 (- 1000) False =
    ([Cast volume 8, Cast volume 8,
      CenteredTransformInitializer volume volume Euler3DTransform False,
      RegistrationExecute rigid_method volume volume,
      ResampleExecute
        \<lparr>ReferenceImage = Some volume,
         ResampleTransform =
           Some (CompositeTransform [Fitted Euler3DTransform [], Fitted VersorRigid3DTransform []]),
         DefaultPixelValue = Some (- 1000), Interpolator = Some 2\<rparr> volume,
      Cast volume 8, Cast volume 8],
     Inr (volume, CompositeTransform [Fitted Euler3DTransform [], Fitted VersorRigid3DTransform []]))"
proof -
  have f32: "sitkFloat32 plain_sitk = 8" and a: "answers plain_sitk = plain_answers"
    by (simp_all add: plain_sitk_def)
  have pid: "GetPixelID volume = 8" and same: "volume\<lparr>GetPixelID := 8\<rparr> = volume"
    by (simp_all add: volume_def cube_def)
  have sel: "select_transform ''rigid''
           (configured_before_transform plain_sitk (Fitted Euler3DTransform []) None None
              ''no_such_metric'' [8, 2, 1] [4, 2, 0] (1 / 4) 3) = Inr rigid_method"
    by (simp add: select_transform_def lower_names rigid_method_def)
  have ready: "ready_to_execute ''no_such_optimiser'' 50 False rigid_method = rigid_method"
    by (simp add: ready_to_execute_def select_optimiser_def lower_names)
  have init: "InitialTransform rigid_method = Some VersorRigid3DTransform"
    by (simp add: rigid_method_def)
  show ?thesis
    using initial_registration_run [where lib = plain_sitk and fixed_image = volume
        and moving_image = volume and fixed_float = volume and moving_float = volume
        and initial_transform = "Fitted Euler3DTransform []" and reg_method = "''rigid''"
        and fixed_structure = None and moving_structure = None
        and metric_name = "''no_such_metric''" and shrink_factors = "[8, 2, 1]"
        and smooth_sigmas = "[4, 2, 0]" and sampling_rate = "1 / 4" and ants_radius = 3
        and registration = rigid_method and optimiser = "''no_such_optimiser''"
        and number_of_iterations = 50 and verbose = False
        and output_transform = "Fitted VersorRigid3DTransform []"
        and default_value = "- 1000" and final_interp = 2 and resampled = volume
        and propagated = volume and registered_image = volume]
    by (simp add: f32 a pid same sel ready init)
qed


theorem unrecognised_reg_method_aborts_witness:
  "initial_registration plain_sitk volume volume None None ''Elastic'' ''mean_squares''
     ''gradient_descent'' [8, 2, 1] [4, 2, 0] (1 / 4) 3 2 50 (- 1000) False
   = ([Cast volume 8, Cast volume 8,
       CenteredTransformInitializer volume volume Euler3DTransform False],
      Inl (ValueError no_such_method))"
  using unrecognised_reg_method_aborts [where reg_method = "''Elastic''" and lib = plain_sitk
      and fixed_image = volume and moving_image = volume and fixed_float = volume
      and moving_float = volume and initial_transform = "Fitted Euler3DTransform []"]
  by (simp add: plain_sitk_def volume_def cube_def lower_names transform_families_def)

text \<open>
  A metric name and an optimiser name that the chains do not know raise nothing: with
  \<^verbatim>\<open>reg_method="rigid"\<close> the run reaches \<^verbatim>\<open>registration.Execute\<close>, with a method whose
  metric and optimiser were never set, and returns.
\<close>

theorem unrecognised_metric_and_optimiser_counterexample:
  "list_ex is_RegistrationExecute
     (calls (initial_registration plain_sitk volume volume None None ''rigid'' ''no_such_metric''
        ''no_such_optimiser'' [8, 2, 1] [4, 2, 0] (1 / 4) 3 2 50 (- 1000) False))
   \<and> outcome (initial_registration plain_sitk volume volume None None ''rigid'' ''no_such_metric''
        ''no_such_optimiser'' [8, 2, 1] [4, 2, 0] (1 / 4) 3 2 50 (- 1000) False)
     = Inr (volume,
            CompositeTransform [Fitted Euler3DTransform [], Fitted VersorRigid3DTransform []])
   \<and> Metric rigid_method = None \<and> Optimizer rigid_method = None
   \<and> calls (initial_registration plain_sitk volume volume None None ''rigid'' ''no_such_metric''
        ''no_such_optimiser'' [8, 2, 1] [4, 2, 0] (1 / 4) 3 2 50 (- 1000) False) ! 3
     = RegistrationExecute rigid_method volume volume"
  by (simp add: plain_rigid_run rigid_method_def configured_before_transform_def
      select_metric_def ImageRegistrationMethod_def Let_def)

section \<open>The initial displacement field\<close>






lemma plain_level:
  "smooth_and_resample plain_sitk (square 8 8) (Number 1) 0 False 2 =
     ([Resample (square 8 8) [8, 8] Transform 2 [0, 0] [1, 1] [1, 0, 0, 1] 0 8], Inr (square 8 8))"
  "smooth_and_resample plain_sitk (square 8 8) (Number 2) 0 False 2 =
     ([Resample (square 8 8) [4, 4] Transform 2 [0, 0] [7 / 3, 7 / 3] [1, 0, 0, 1] 0 8],
      Inr half_level)"
  by (simp_all add: smooth_and_resample_def new_size_of_def new_spacing_of_def square_def
      rounded_quotient_def py_true_divide_def py_int_def sitk_image_def plain_sitk_def
      half_level_def)

lemma plain_pyramid:
  "image_pyramid plain_sitk (square 8 8) (square 8 8) False (rev (zip [Number 2, Number 1] [0, 0]))
     = (two_levels, Inr ([square 8 8, half_level], [square 8 8, half_level]))"
proof -
  have "sitkLinear plain_sitk = 2" by (simp add: plain_sitk_def)
  then show ?thesis
    by (simp add: plain_level two_levels_def returns_def)
qed

lemma larger_factor_smaller_size:
  assumes "0 \<le> sz" "0 < g" "g \<le> f"
  shows "\<exists>a b. rounded_quotient sz f = Inr a \<and> rounded_quotient sz g = Inr b \<and> a \<le> b"
proof -
  have "real_of_int sz / f \<le> real_of_int sz / g"
    using assms by (intro divide_left_mono) (auto intro: mult_pos_pos)
  then have "round (real_of_int sz / f) \<le> round (real_of_int sz / g)"
    by (rule round_mono)
  moreover have "rounded_quotient sz f = Inr (round (real_of_int sz / f))"
    using assms by (intro rounded_quotient_round) auto
  moreover have "rounded_quotient sz g = Inr (round (real_of_int sz / g))"
    using assms by (intro rounded_quotient_round) auto
  ultimately show ?thesis by simp
qed


section \<open>Structures in the demons registration\<close>

lemma in_calls_and_then:
  "c \<in> set (fst (and_then m f)) \<longleftrightarrow>
     c \<in> set (fst m) \<or> (\<exists>x. snd m = Inr x \<and> c \<in> set (fst (f x)))"
  by (cases m) (auto simp: and_then_def split: sum.splits prod.splits)

lemma demons_registration_shape:
  "fast_symmetric_forces_demons_registration lib fixed_image moving_image resolution_staging
     iteration_staging isotropic_resample initial_displacement_field smoothing_sigma_factor
     smoothing_sigmas default_value ncores structure interp_order verbose =
   and_then
     (if GetPixelID fixed_image \<noteq> 6 then sitk_image lib (Cast fixed_image (sitkFloat32 lib))
      else returns fixed_image)
     (\<lambda>fixed_float.
        and_then
          (if GetPixelID moving_image \<noteq> 6 then
             sitk_image lib (Cast moving_image (sitkFloat32 lib))
           else returns moving_image)
          (\<lambda>moving_float.
             and_then
               (multiscale_demons lib (configured_demons ncores verbose) fixed_float moving_float
                  None initial_displacement_field (map Number resolution_staging)
                  (chosen_sigmas smoothing_sigmas smoothing_sigma_factor resolution_staging)
                  iteration_staging isotropic_resample)
               (\<lambda>(output_transform, deformation_field).
                  and_then
                    (sitk_image lib
                       (ResampleExecute
                          \<lparr>ReferenceImage = Some fixed_float,
                           ResampleTransform = Some output_transform,
                           DefaultPixelValue = Some (if structure then 0 else default_value),
                           Interpolator = Some interp_order\<rparr> moving_float))
                    (\<lambda>registered_image.
                       and_then
                         (if structure then
                            and_then (sitk_image lib (Cast registered_image (sitkFloat32 lib)))
                              (\<lambda>registered_image.
                                 sitk_image lib
                                   (BinaryThreshold registered_image (1 / 100000) 100))
                          else returns registered_image)
                         (\<lambda>registered_image.
                            and_then
                              (sitk_image lib (CopyInformation registered_image fixed_float))
                              (\<lambda>registered_image.
                                 and_then
                                   (sitk_image lib
                                      (Cast registered_image (GetPixelID moving_image)))
                                   (\<lambda>registered_image.
                                      and_then
                                        (sitk_image lib
                                           (ResampleTo deformation_field fixed_float))
                                        (\<lambda>resampled_field.
                                           returns
                                             (registered_image, output_transform,
                                              resampled_field)))))))))"
  unfolding fast_symmetric_forces_demons_registration_def configured_demons_def chosen_sigmas_def
    Let_def ResampleImageFilter_def
  by (cases "structure") simp_all

text \<open>
  C2, as the code has it. Whenever \<^verbatim>\<open>fast_symmetric_forces_demons_registration\<close> returns
  with \<^verbatim>\<open>structure=True\<close>, the moving image (cast to float unless its pixel type is 6)
  was resampled onto the fixed image under the output displacement-field transform with
  default pixel value 0 and with the interpolator \<^verbatim>\<open>interp_order\<close> as given: nearest
  neighbour only if the caller asked for it. The resampled image is cast to float and
  binary-thresholded between \<open>1e-5\<close> and 100; the registered image is that mask with the
  fixed image's information copied to it, cast to the moving image's pixel type.
\<close>

theorem structure_resampled_with_interp_order_then_thresholded:
  assumes "outcome (fast_symmetric_forces_demons_registration lib fixed_image moving_image
      resolution_staging iteration_staging isotropic_resample initial_displacement_field
      smoothing_sigma_factor smoothing_sigmas default_value ncores True interp_order verbose)
        = Inr (registered_image, output_transform, resampled_field)"
  shows "\<exists>fixed_float moving_float resampled float_image thresholded informed.
      (if GetPixelID moving_image \<noteq> 6 then
         answers lib (Cast moving_image (sitkFloat32 lib)) = Some (AnImage moving_float)
       else moving_float = moving_image)
    \<and> (if GetPixelID fixed_image \<noteq> 6 then
         answers lib (Cast fixed_image (sitkFloat32 lib)) = Some (AnImage fixed_float)
       else fixed_float = fixed_image)
    \<and> ResampleExecute
          \<lparr>ReferenceImage = Some fixed_float, ResampleTransform = Some output_transform,
           DefaultPixelValue = Some 0, Interpolator = Some interp_order\<rparr> moving_float
        \<in> set (calls (fast_symmetric_forces_demons_registration lib fixed_image moving_image
             resolution_staging iteration_staging isotropic_resample initial_displacement_field
             smoothing_sigma_factor smoothing_sigmas default_value ncores True interp_order
             verbose))
    \<and> answers lib
          (ResampleExecute
             \<lparr>ReferenceImage = Some fixed_float, ResampleTransform = Some output_transform,
              DefaultPixelValue = Some 0, Interpolator = Some interp_order\<rparr> moving_float)
        = Some (AnImage resampled)
    \<and> answers lib (Cast resampled (sitkFloat32 lib)) = Some (AnImage float_image)
    \<and> BinaryThreshold float_image (1 / 100000) 100
        \<in> set (calls (fast_symmetric_forces_demons_registration lib fixed_image moving_image
             resolution_staging iteration_staging isotropic_resample initial_displacement_field
             smoothing_sigma_factor smoothing_sigmas default_value ncores True interp_order
             verbose))
    \<and> answers lib (BinaryThreshold float_image (1 / 100000) 100) = Some (AnImage thresholded)
    \<and> answers lib (CopyInformation thresholded fixed_float) = Some (AnImage informed)
    \<and> answers lib (Cast informed (GetPixelID moving_image)) = Some (AnImage registered_image)"
proof -
  let ?R = "fast_symmetric_forces_demons_registration lib fixed_image moving_image
      resolution_staging iteration_staging isotropic_resample initial_displacement_field
      smoothing_sigma_factor smoothing_sigmas default_value ncores True interp_order verbose"
  from assms have res: "snd ?R = Inr (registered_image, output_transform, resampled_field)"
    by (simp add: outcome_def)
  then obtain fixed_float moving_float deformation_field resampled float_image thresholded informed
    where ff: "snd (if GetPixelID fixed_image \<noteq> 6 then
                      sitk_image lib (Cast fixed_image (sitkFloat32 lib))
                    else returns fixed_image) = Inr fixed_float"
      and mf: "snd (if GetPixelID moving_image \<noteq> 6 then
                      sitk_image lib (Cast moving_image (sitkFloat32 lib))
                    else returns moving_image) = Inr moving_float"
      and ms: "snd (multiscale_demons lib (configured_demons ncores verbose) fixed_float moving_float
                  None initial_displacement_field (map Number resolution_staging)
                  (chosen_sigmas smoothing_sigmas smoothing_sigma_factor resolution_staging)
                  iteration_staging isotropic_resample) = Inr (output_transform, deformation_field)"
      and rs: "answers lib
          (ResampleExecute
             \<lparr>ReferenceImage = Some fixed_float, ResampleTransform = Some output_transform,
              DefaultPixelValue = Some 0, Interpolator = Some interp_order\<rparr> moving_float)
        = Some (AnImage resampled)"
      and fl: "answers lib (Cast resampled (sitkFloat32 lib)) = Some (AnImage float_image)"
      and th: "answers lib (BinaryThreshold float_image (1 / 100000) 100) = Some (AnImage thresholded)"
      and ci: "answers lib (CopyInformation thresholded fixed_float) = Some (AnImage informed)"
      and ca: "answers lib (Cast informed (GetPixelID moving_image)) = Some (AnImage registered_image)"
    unfolding demons_registration_shape
    by (auto simp: snd_and_then_Inr)
  have in1: "ResampleExecute
          \<lparr>ReferenceImage = Some fixed_float, ResampleTransform = Some output_transform,
           DefaultPixelValue = Some 0, Interpolator = Some interp_order\<rparr> moving_float
        \<in> set (fst ?R)"
    unfolding demons_registration_shape
    using ff mf ms by (simp add: in_calls_and_then)
  have in2: "BinaryThreshold float_image (1 / 100000) 100 \<in> set (fst ?R)"
    unfolding demons_registration_shape
    using ff mf ms rs fl by (simp add: in_calls_and_then)
  have m: "if GetPixelID moving_image \<noteq> 6 then
         answers lib (Cast moving_image (sitkFloat32 lib)) = Some (AnImage moving_float)
       else moving_float = moving_image"
    using mf by (auto split: if_splits)
  have f: "if GetPixelID fixed_image \<noteq> 6 then
         answers lib (Cast fixed_image (sitkFloat32 lib)) = Some (AnImage fixed_float)
       else fixed_float = fixed_image"
    using ff by (auto split: if_splits)
  from m f in1 in2 rs fl th ci ca show ?thesis
    unfolding calls_def by blast
qed

section \<open>A run of the demons registration\<close>

lemma plain_demons:
  "multiscale_demons plain_sitk (configured_demons 1 False) (square 8 8) (square 8 8) None None
     [Number 2, Number 1] [0, 0] [10, 5] False =
   (two_levels @
     [NewImage [4, 4] 16,
      CopyInformation
        \<lparr>GetSize = [4, 4], GetSpacing = [1, 1], GetOrigin = [0, 0], GetDirection = [],
         GetPixelID = 16, GetArrayFromImage = []\<rparr> half_level,
      DemonsExecute ((configured_demons 1 False)\<lparr>NumberOfIterations := Some 10\<rparr>)
        half_level half_level (half_level\<lparr>GetPixelID := 16\<rparr>),
      ResampleTo (half_level\<lparr>GetPixelID := 16\<rparr>) (square 8 8),
      DemonsExecute ((configured_demons 1 False)\<lparr>NumberOfIterations := Some 5\<rparr>)
        (square 8 8) (square 8 8) (square 8 16),
      ResampleTo (square 8 16) (square 8 16)],
    Inr (DisplacementFieldTransform (square 8 16), square 8 16))"
proof -
  have vals: "sitkVectorFloat64 plain_sitk = 16" "answers plain_sitk = plain_answers"
    by (simp_all add: plain_sitk_def)
  have sq: "length (GetSize (square 8 8)) = 2"
    "(square 8 8)\<lparr>GetPixelID := 16\<rparr> = square 8 16"
    "(square 8 16)\<lparr>GetPixelID := 16\<rparr> = square 8 16"
    "GetPixelID (square 8 16) = 16"
    by (simp_all add: square_def)
  show ?thesis
    unfolding multiscale_demons_def plain_pyramid
    by (simp add: initial_field_at_lowest_resolution_def py_last_def py_nth_def sitk_image_def
        vals sq returns_def half_level_def GetWidth_def GetHeight_def)
qed

lemma plain_structure_run:
  "fast_symmetric_forces_demons_registration plain_sitk (square 8 8) (square 8 8) [2, 1]
     [10, 5] False None 1 (Some [0, 0]) (- 1000) 1 True 2 False =
   (plain_structure_calls,
    Inr (square 8 8, DisplacementFieldTransform (square 8 16), square 8 16))"
proof -
  have vals: "sitkFloat32 plain_sitk = 8" "answers plain_sitk = plain_answers"
    by (simp_all add: plain_sitk_def)
  have sq: "GetPixelID (square 8 8) = 8" "(square 8 8)\<lparr>GetPixelID := 8\<rparr> = square 8 8"
    "(square 8 8)\<lparr>GetPixelID := 1\<rparr> = square 8 1"
    "(square 8 1)\<lparr>GetPixelID := 8\<rparr> = square 8 8"
    "(square 8 8)\<lparr>GetPixelID := 16\<rparr> = square 8 16"
    "GetPixelID (square 8 16) = 16"
    "(square 8 1)\<lparr>GetSpacing := GetSpacing (square 8 8), GetOrigin := GetOrigin (square 8 8),
        GetDirection := GetDirection (square 8 8)\<rparr> = square 8 1"
    by (simp_all add: square_def)
  have sig: "chosen_sigmas (Some [0, 0]) 1 [2, 1] = [0, 0]"
    by (simp add: chosen_sigmas_def)
  show ?thesis
    unfolding demons_registration_shape
    by (simp add: vals sq sig plain_demons sitk_image_def plain_structure_calls_def returns_def)
qed

theorem structure_resampled_with_interp_order_then_thresholded_witness:
  "\<exists>resampled float_image thresholded informed.
     ResampleExecute
       \<lparr>ReferenceImage = Some (square 8 8),
        ResampleTransform = Some (DisplacementFieldTransform (square 8 16)),
        DefaultPixelValue = Some 0, Interpolator = Some 2\<rparr> (square 8 8)
       \<in> set plain_structure_calls
   \<and> plain_answers
         (ResampleExecute
            \<lparr>ReferenceImage = Some (square 8 8),
             ResampleTransform = Some (DisplacementFieldTransform (square 8 16)),
             DefaultPixelValue = Some 0, Interpolator = Some 2\<rparr> (square 8 8))
       = Some (AnImage resampled)
   \<and> plain_answers (Cast resampled 8) = Some (AnImage float_image)
   \<and> BinaryThreshold float_image (1 / 100000) 100 \<in> set plain_structure_calls
   \<and> plain_answers (BinaryThreshold float_image (1 / 100000) 100) = Some (AnImage thresholded)
   \<and> plain_answers (CopyInformation thresholded (square 8 8)) = Some (AnImage informed)
   \<and> plain_answers (Cast informed 8) = Some (AnImage (square 8 8))"
proof -
  have o: "outcome (fast_symmetric_forces_demons_registration plain_sitk (square 8 8)
      (square 8 8) [2, 1] [10, 5] False None 1 (Some [0, 0]) (- 1000) 1 True 2 False)
      = Inr (square 8 8, DisplacementFieldTransform (square 8 16), square 8 16)"
    by (simp add: plain_structure_run)
  have vals: "sitkFloat32 plain_sitk = 8" "answers plain_sitk = plain_answers"
    by (simp_all add: plain_sitk_def)
  have sq: "GetPixelID (square 8 8) = 8" "(square 8 8)\<lparr>GetPixelID := 8\<rparr> = square 8 8"
    by (simp_all add: square_def)
  from structure_resampled_with_interp_order_then_thresholded [OF o]
  show ?thesis
    by (auto simp: plain_structure_run vals sq)
qed

text \<open>
  With \<^verbatim>\<open>structure=True\<close> and the default \<^verbatim>\<open>interp_order=2\<close> the one execution of the
  resampling filter in the run has interpolator 2, which is not nearest neighbour.
\<close>

theorem nearest_neighbour_not_forced_counterexample:
  "sitkNearestNeighbor plain_sitk = 1
   \<and> filter is_ResampleExecute
       (calls (fast_symmetric_forces_demons_registration plain_sitk (square 8 8) (square 8 8)
          [2, 1] [10, 5] False None 1 (Some [0, 0]) (- 1000) 1 True 2 False)) =
     [ResampleExecute
        \<lparr>ReferenceImage = Some (square 8 8),
         ResampleTransform = Some (DisplacementFieldTransform (square 8 16)),
         DefaultPixelValue = Some 0, Interpolator = Some 2\<rparr> (square 8 8)]"
proof -
  have "sitkNearestNeighbor plain_sitk = 1"
    by (simp add: plain_sitk_def)
  then show ?thesis
    by (simp add: plain_structure_run plain_structure_calls_def two_levels_def)
qed

end
